theory Spec2Isabelle
  imports Main "HOL-Library.Multiset"
begin

section \<open>Values, errors and rows\<close>

text \<open>
  The cell values of a DataFrame are JavaScript values. The model keeps the five primitive
  kinds. A number is an integer or NaN; fractions and the infinities are not represented.
\<close>

datatype val = Undefined | Null | Bool bool | Num int | NaN | Str string

text \<open>The error classes imported from errors.js, and the TypeError of the runtime.\<close>

datatype error =
    InputTypeError
  | WrongSchemaError
  | MixedTypeError
  | TableAlreadyExistsError
  | TypeError

text \<open>The result of the \<^verbatim>\<open>typeof\<close> operator.\<close>

fun typeof :: "val \<Rightarrow> string" where
  "typeof Undefined = ''undefined''"
| "typeof Null = ''object''"
| "typeof (Bool b) = ''boolean''"
| "typeof (Num n) = ''number''"
| "typeof NaN = ''number''"
| "typeof (Str s) = ''string''"

text \<open>
  Modelled from the spec: row.js is not part of the sources. A Row is an ordered
  key-to-value record over a schema; a column that the input does not populate holds the
  "no value" sentinel (\<^const>\<open>Undefined\<close>). The model is the list of (column, value) pairs in
  schema order.
\<close>

type_synonym Row = "(string \<times> val) list"

text \<open>The row-like records the constructor accepts: a positional array, a named mapping,
  or a Row.\<close>

datatype rowlike = RowArr "val list" | RowObj "(string \<times> val) list" | RowRow Row

definition Row_get :: "Row \<Rightarrow> string \<Rightarrow> val" where
  "Row_get r c = (case map_of r c of Some v \<Rightarrow> v | None \<Rightarrow> Undefined)"

definition Row_toArray :: "Row \<Rightarrow> val list" where
  "Row_toArray r = map snd r"

definition Row_fromArray :: "val list \<Rightarrow> string list \<Rightarrow> Row" where
  "Row_fromArray arr cols =
     map (\<lambda>(i, c). (c, if i < length arr then arr ! i else Undefined)) (enumerate 0 cols)"

definition Row_fromObject :: "(string \<times> val) list \<Rightarrow> string list \<Rightarrow> Row" where
  "Row_fromObject obj cols =
     map (\<lambda>c. (c, case map_of obj c of Some v \<Rightarrow> v | None \<Rightarrow> Undefined)) cols"

fun Row_new :: "rowlike \<Rightarrow> string list \<Rightarrow> Row" where
  "Row_new (RowArr arr) cols = Row_fromArray arr cols"
| "Row_new (RowObj obj) cols = Row_fromObject obj cols"
| "Row_new (RowRow r) cols = Row_fromObject r cols"

section \<open>DataFrame: construction\<close>

record DataFrame =
  rows :: "Row list"
  columns :: "string list"

text \<open>The three input shapes of the constructor, and anything else.\<close>

datatype data =
    DataDF DataFrame
  | DataArr "rowlike list"
  | DataDict "(string \<times> val list) list"
  | DataOther

text \<open>\<^verbatim>\<open>String.prototype.replace(' ', '')\<close> with a string pattern replaces the first
  occurrence only.\<close>

fun replace_space :: "string \<Rightarrow> string" where
  "replace_space [] = []"
| "replace_space (c # cs) = (if c = CHR '' '' then cs else c # replace_space cs)"

text \<open>\<^verbatim>\<open>_dropSpacesInColumnNames\<close>: an absent column list is passed through.\<close>

definition dropSpacesInColumnNames :: "string list option \<Rightarrow> string list option" where
  "dropSpacesInColumnNames cols = map_option (map replace_space) cols"

text \<open>\<^verbatim>\<open>[...new Set(xs)]\<close>: the distinct elements in order of first appearance.\<close>

fun uniq :: "'a list \<Rightarrow> 'a list" where
  "uniq [] = []"
| "uniq (x # xs) = x # uniq (filter (\<lambda>y. y \<noteq> x) xs)"

text \<open>
  Modelled from the spec: reusables.js (\<^verbatim>\<open>transpose\<close>) is not part of the sources. The
  column-major input is transposed into rows; a column shorter than the longest one leaves
  its cell unpopulated.
\<close>

definition transpose_pad :: "val list list \<Rightarrow> val list list" where
  "transpose_pad cs =
     map (\<lambda>i. map (\<lambda>c. if i < length c then c ! i else Undefined) cs)
       [0 ..< foldr (\<lambda>c n. max (length c) n) cs 0]"

text \<open>\<^verbatim>\<open>Object.keys\<close> of a row-like record; the keys of an array are its indices, the
  keys of a Row are taken to be its columns.\<close>

fun digit_of :: "nat \<Rightarrow> char" where
  "digit_of n = (''0123456789'' ! (n mod 10))"

function string_of_nat :: "nat \<Rightarrow> string" where
  "string_of_nat n = (if n < 10 then [digit_of n] else string_of_nat (n div 10) @ [digit_of n])"
  by pat_completeness auto
termination
  by (relation "measure (\<lambda>n. n)") auto

fun Object_keys :: "rowlike \<Rightarrow> string list" where
  "Object_keys (RowArr arr) = map string_of_nat [0 ..< length arr]"
| "Object_keys (RowObj obj) = map fst obj"
| "Object_keys (RowRow r) = map fst r"

definition fromArray :: "rowlike list \<Rightarrow> string list \<Rightarrow> DataFrame" where
  "fromArray array cols = \<lparr>rows = map (\<lambda>row. Row_new row cols) array, columns = cols\<rparr>"

definition fromDict :: "(string \<times> val list) list \<Rightarrow> string list \<Rightarrow> DataFrame" where
  "fromDict dict cols =
     \<lparr>rows = map (\<lambda>row. Row_new (RowArr row) cols) (transpose_pad (map snd dict)),
      columns = cols\<rparr>"

text \<open>\<^verbatim>\<open>_build\<close>: the default schema of an array input folds the key lists with
  \<^verbatim>\<open>reduce\<close> and no initial value, which throws on an empty array.\<close>

fun build :: "data \<Rightarrow> string list option \<Rightarrow> error + DataFrame" where
  "build (DataDF df) cols =
     Inr (fromArray (map RowRow (rows df)) (case cols of Some cs \<Rightarrow> cs | None \<Rightarrow> columns df))"
| "build (DataArr array) cols =
     (case cols of
        Some cs \<Rightarrow> Inr (fromArray array cs)
      | None \<Rightarrow>
          (if array = [] then Inl TypeError
           else Inr (fromArray array (uniq (concat (map Object_keys array))))))"
| "build (DataDict dict) cols =
     Inr (fromDict dict (case cols of Some cs \<Rightarrow> cs | None \<Rightarrow> map fst dict))"
| "build DataOther cols = Inl InputTypeError"

text \<open>The constructor \<^verbatim>\<open>new DataFrame(data, columns)\<close>.\<close>

definition DataFrame_new :: "data \<Rightarrow> string list option \<Rightarrow> error + DataFrame" where
  "DataFrame_new dat cols = build dat (dropSpacesInColumnNames cols)"

section \<open>DataFrame: accessors\<close>

definition count_df :: "DataFrame \<Rightarrow> nat" where
  "count_df d = length (rows d)"

definition listColumns :: "DataFrame \<Rightarrow> string list" where
  "listColumns d = columns d"

definition toArray :: "DataFrame \<Rightarrow> val list list" where
  "toArray d = map Row_toArray (rows d)"

definition toArray_column :: "DataFrame \<Rightarrow> string \<Rightarrow> val list" where
  "toArray_column d c = map (\<lambda>row. Row_get row c) (rows d)"

section \<open>Shared sequence utilities\<close>

text \<open>
  Modelled from the spec: reusables.js (\<^verbatim>\<open>arrayEqual\<close>) is not part of the sources. Two
  schemas are identical when they hold the same names in the same order.
\<close>

definition arrayEqual :: "string list \<Rightarrow> string list \<Rightarrow> bool" where
  "arrayEqual a b = (a = b)"

text \<open>
  Modelled from the spec: reusables.js (\<^verbatim>\<open>iter\<close>) is not part of the sources. The lazy
  traversal applies the function to each element in order and yields its result unless
  the result is falsy (\<open>None\<close>); an exception of the function ends the traversal. The
  optional stop test is not used by the operations modelled here.
\<close>

fun iter :: "'a list \<Rightarrow> ('a \<Rightarrow> error + 'b option) \<Rightarrow> error + 'b list" where
  "iter [] func = Inr []"
| "iter (x # xs) func =
     (case func x of
        Inl e \<Rightarrow> Inl e
      | Inr None \<Rightarrow> iter xs func
      | Inr (Some y) \<Rightarrow> (case iter xs func of Inl e \<Rightarrow> Inl e | Inr ys \<Rightarrow> Inr (y # ys)))"

text \<open>\<^verbatim>\<open>Array.prototype.reduce\<close> without an initial value: the first element is the
  seed, and an empty array throws a TypeError. The callback may throw.\<close>

fun foldl_err :: "('a \<Rightarrow> 'a \<Rightarrow> error + 'a) \<Rightarrow> 'a \<Rightarrow> 'a list \<Rightarrow> error + 'a" where
  "foldl_err f a [] = Inr a"
| "foldl_err f a (x # xs) = (case f a x of Inl e \<Rightarrow> Inl e | Inr a' \<Rightarrow> foldl_err f a' xs)"

fun reduce :: "('a \<Rightarrow> 'a \<Rightarrow> error + 'a) \<Rightarrow> 'a list \<Rightarrow> error + 'a" where
  "reduce f [] = Inl TypeError"
| "reduce f (x # xs) = foldl_err f x xs"

section \<open>DataFrame: new instances\<close>

text \<open>\<^verbatim>\<open>data[0] instanceof Row\<close>.\<close>

fun instanceof_Row :: "rowlike list \<Rightarrow> bool" where
  "instanceof_Row (RowRow r # rest) = True"
| "instanceof_Row other = False"

text \<open>The Rows of an array whose first element is a Row. Every caller in the sources
  passes an array of Rows there.\<close>

fun the_Rows :: "rowlike list \<Rightarrow> Row list" where
  "the_Rows [] = []"
| "the_Rows (RowRow r # rest) = r # the_Rows rest"
| "the_Rows (other # rest) = the_Rows rest"

text \<open>\<^verbatim>\<open>__newInstance__\<close>: the receiver's copy with new rows when the schema is the
  receiver's and the first datum is a Row; a fresh construction otherwise.\<close>

definition newInstance :: "DataFrame \<Rightarrow> rowlike list \<Rightarrow> string list \<Rightarrow> error + DataFrame" where
  "newInstance this dat cols =
     (if \<not> arrayEqual cols (columns this) \<or> \<not> instanceof_Row dat
      then DataFrame_new (DataArr dat) (dropSpacesInColumnNames (Some cols))
      else Inr \<lparr>rows = the_Rows dat, columns = map replace_space cols\<rparr>)"

section \<open>DataFrame: transformations\<close>

text \<open>\<^verbatim>\<open>restructure\<close>.\<close>

definition restructure :: "DataFrame \<Rightarrow> string list \<Rightarrow> error + DataFrame" where
  "restructure this newColumnNames = newInstance this (map RowRow (rows this)) newColumnNames"


text \<open>\<^verbatim>\<open>filter\<close>: the condition is a function on the row, or a column/value object whose
  pairs are compared with \<^verbatim>\<open>Object.is\<close> and folded with \<^verbatim>\<open>&&\<close> by a
  \<^verbatim>\<open>reduce\<close> that has no initial value.\<close>

datatype condition = CondFunc "Row \<Rightarrow> bool" | CondObj "(string \<times> val) list"

fun condition_func :: "condition \<Rightarrow> Row \<Rightarrow> error + bool" where
  "condition_func (CondFunc f) row = Inr (f row)"
| "condition_func (CondObj entries) row =
     reduce (\<lambda>p n. Inr (p \<and> n)) (map (\<lambda>(column, v). Row_get row column = v) entries)"

definition filter_df :: "DataFrame \<Rightarrow> condition \<Rightarrow> error + DataFrame" where
  "filter_df this cond =
     (case iter (rows this)
             (\<lambda>row. case condition_func cond row of
                       Inl e \<Rightarrow> Inl e
                     | Inr b \<Rightarrow> Inr (if b then Some row else None)) of
        Inl e \<Rightarrow> Inl e
      | Inr filteredRows \<Rightarrow>
          (if length filteredRows > 0
           then newInstance this (map RowRow filteredRows) (columns this)
           else newInstance this [] []))"

text \<open>\<^verbatim>\<open>map\<close>.\<close>

definition map_df :: "DataFrame \<Rightarrow> (Row \<Rightarrow> Row) \<Rightarrow> error + DataFrame" where
  "map_df this func =
     (case iter (rows this) (\<lambda>row. Inr (Some (func row))) of
        Inl e \<Rightarrow> Inl e
      | Inr mapped \<Rightarrow> newInstance this (map RowRow mapped) (columns this))"

text \<open>
  Modelled from the spec: reusables.js (\<^verbatim>\<open>chain\<close>) is not part of the sources. A step
  evaluated on a row yields a boolean (a filter: false drops the row, true keeps it
  unchanged) or a Row (a map: the Row replaces the row). One traversal applies the steps
  to each row in order and stops for that row at the first filter step that returns false.
\<close>

datatype step_result = IsBool bool | IsRow Row

fun apply_steps :: "(Row \<Rightarrow> step_result) list \<Rightarrow> Row \<Rightarrow> Row option" where
  "apply_steps [] row = Some row"
| "apply_steps (f # fs) row =
     (case f row of
        IsBool b \<Rightarrow> (if b then apply_steps fs row else None)
      | IsRow row' \<Rightarrow> apply_steps fs row')"

fun chain_rows :: "Row list \<Rightarrow> (Row \<Rightarrow> step_result) list \<Rightarrow> Row list" where
  "chain_rows [] funcs = []"
| "chain_rows (row # rest) funcs =
     (case apply_steps funcs row of
        None \<Rightarrow> chain_rows rest funcs
      | Some row' \<Rightarrow> row' # chain_rows rest funcs)"

text \<open>\<^verbatim>\<open>chain\<close> of the DataFrame.\<close>

definition chain_df :: "DataFrame \<Rightarrow> (Row \<Rightarrow> step_result) list \<Rightarrow> error + DataFrame" where
  "chain_df this funcs = newInstance this (map RowRow (chain_rows (rows this) funcs)) (columns this)"

text \<open>The plain counterpart: a step tagged as a filter or as a map, the function it
  stands for, and the steps applied one after the other with \<^verbatim>\<open>filter\<close> and
  \<^verbatim>\<open>map\<close>.\<close>

datatype step = Filter "Row \<Rightarrow> bool" | Map "Row \<Rightarrow> Row"

fun step_func :: "step \<Rightarrow> Row \<Rightarrow> step_result" where
  "step_func (Filter p) row = IsBool (p row)"
| "step_func (Map f) row = IsRow (f row)"

fun apply_plain :: "DataFrame \<Rightarrow> step \<Rightarrow> error + DataFrame" where
  "apply_plain d (Filter p) = filter_df d (CondFunc p)"
| "apply_plain d (Map f) = map_df d f"

fun sequentially :: "DataFrame \<Rightarrow> step list \<Rightarrow> error + DataFrame" where
  "sequentially d [] = Inr d"
| "sequentially d (s # ss) =
     (case apply_plain d s of Inl e \<Rightarrow> Inl e | Inr d' \<Rightarrow> sequentially d' ss)"

text \<open>\<^verbatim>\<open>union\<close>.\<close>

definition union_df :: "DataFrame \<Rightarrow> DataFrame \<Rightarrow> error + DataFrame" where
  "union_df this dfToUnion =
     (if \<not> arrayEqual (columns this) (columns dfToUnion) then Inl WrongSchemaError
      else newInstance this (map RowRow (rows this @ rows dfToUnion)) (columns this))"

section \<open>Sorting\<close>

text \<open>
  The subtraction \<^verbatim>\<open>pValue - nValue\<close> converts both operands to numbers; \<open>None\<close> stands
  for NaN. The conversion of a string is the runtime's and is taken as a parameter.
\<close>

fun ToNumber :: "(string \<Rightarrow> int option) \<Rightarrow> val \<Rightarrow> int option" where
  "ToNumber sn Undefined = None"
| "ToNumber sn Null = Some 0"
| "ToNumber sn (Bool b) = Some (if b then 1 else 0)"
| "ToNumber sn (Num n) = Some n"
| "ToNumber sn NaN = None"
| "ToNumber sn (Str s) = sn s"

definition js_minus :: "(string \<Rightarrow> int option) \<Rightarrow> val \<Rightarrow> val \<Rightarrow> int option" where
  "js_minus sn a b =
     (case ToNumber sn a of
        None \<Rightarrow> None
      | Some x \<Rightarrow> (case ToNumber sn b of None \<Rightarrow> None | Some y \<Rightarrow> Some (x - y)))"

text \<open>The comparator that \<^verbatim>\<open>sortBy\<close> hands to the sort.\<close>

definition sortBy_compare ::
    "(string \<Rightarrow> int option) \<Rightarrow> string \<Rightarrow> Row \<Rightarrow> Row \<Rightarrow> error + int option" where
  "sortBy_compare sn columnName p n =
     (let pValue = Row_get p columnName; nValue = Row_get n columnName
      in if typeof pValue \<noteq> typeof nValue then Inl MixedTypeError
         else Inr (js_minus sn pValue nValue))"

text \<open>
  \<^verbatim>\<open>Array.prototype.sort\<close> with a comparator: the language leaves the sequence of
  comparisons to the engine; the model is a stable insertion sort. An element moves behind
  its neighbour when the comparator returns a positive number (NaN counts as zero), and
  an exception of the comparator ends the sort.
\<close>

fun sort_insert :: "('a \<Rightarrow> 'a \<Rightarrow> error + int option) \<Rightarrow> 'a \<Rightarrow> 'a list \<Rightarrow> error + 'a list" where
  "sort_insert cmp x [] = Inr [x]"
| "sort_insert cmp x (y # ys) =
     (case cmp x y of
        Inl e \<Rightarrow> Inl e
      | Inr v \<Rightarrow>
          (if (case v of None \<Rightarrow> False | Some k \<Rightarrow> 0 < k)
           then (case sort_insert cmp x ys of Inl e \<Rightarrow> Inl e | Inr zs \<Rightarrow> Inr (y # zs))
           else Inr (x # y # ys)))"

fun Array_sort :: "('a \<Rightarrow> 'a \<Rightarrow> error + int option) \<Rightarrow> 'a list \<Rightarrow> error + 'a list" where
  "Array_sort cmp [] = Inr []"
| "Array_sort cmp (x # xs) =
     (case Array_sort cmp xs of Inl e \<Rightarrow> Inl e | Inr sorted_tail \<Rightarrow> sort_insert cmp x sorted_tail)"

text \<open>
  \<^verbatim>\<open>sortBy\<close>: \<^verbatim>\<open>sort\<close> and \<^verbatim>\<open>reverse\<close> work in place on the receiver's own row array, so
  the call returns the new instance together with the receiver as the call leaves it.
\<close>

definition sortBy ::
    "(string \<Rightarrow> int option) \<Rightarrow> DataFrame \<Rightarrow> string \<Rightarrow> bool \<Rightarrow> error + (DataFrame \<times> DataFrame)" where
  "sortBy sn this columnName reverse =
     (case Array_sort (sortBy_compare sn columnName) (rows this) of
        Inl e \<Rightarrow> Inl e
      | Inr sorted_rows \<Rightarrow>
          (let sortedRows = (if reverse then rev sorted_rows else sorted_rows);
               this' = this\<lparr>rows := sortedRows\<rparr>
           in case newInstance this' (map RowRow sortedRows) (columns this') of
                Inl e \<Rightarrow> Inl e
              | Inr d \<Rightarrow> Inr (d, this')))"

section \<open>Grouping and joins\<close>

text \<open>
  Modelled from the spec: groupedDataframe.js is not part of the sources. \<^verbatim>\<open>groupBy\<close>
  partitions the parent's rows into groups keyed by the values of the grouping columns,
  in the order of first appearance of each distinct key; each group is a DataFrame with
  the parent's schema and the parent's rows of that key, in their order.
  \<^verbatim>\<open>listGroups\<close> is the ordered list of the group-key mappings, \<^verbatim>\<open>toCollection\<close> the
  ordered list of (group key, group) pairs.
\<close>

type_synonym GroupedDataFrame = "((string \<times> val) list \<times> DataFrame) list"

definition group_key :: "string list \<Rightarrow> Row \<Rightarrow> (string \<times> val) list" where
  "group_key columnNames row = map (\<lambda>c. (c, Row_get row c)) columnNames"

definition groupBy :: "DataFrame \<Rightarrow> string list \<Rightarrow> GroupedDataFrame" where
  "groupBy df columnNames =
     map (\<lambda>k. (k, \<lparr>rows = filter (\<lambda>row. group_key columnNames row = k) (rows df),
                   columns = columns df\<rparr>))
       (uniq (map (group_key columnNames) (rows df)))"

definition listGroups :: "GroupedDataFrame \<Rightarrow> (string \<times> val) list list" where
  "listGroups gdf = map fst gdf"

definition toCollection_gdf :: "GroupedDataFrame \<Rightarrow> ((string \<times> val) list \<times> DataFrame) list" where
  "toCollection_gdf gdf = gdf"

text \<open>\<^verbatim>\<open>Object.values(groupKey)[0]\<close>.\<close>

definition first_value :: "(string \<times> val) list \<Rightarrow> val" where
  "first_value groupKey = (case map snd groupKey of [] \<Rightarrow> Undefined | v # vs \<Rightarrow> v)"

text \<open>\<^verbatim>\<open>_joinByType\<close>: the groups of the first side that the type keeps; a group that is
  not kept becomes \<^verbatim>\<open>false\<close> and is filtered out.\<close>

definition joinByType :: "GroupedDataFrame \<Rightarrow> GroupedDataFrame \<Rightarrow> string \<Rightarrow> DataFrame list" where
  "joinByType gdf1 gdf2 type =
     (if type = ''out'' \<or> type = ''in''
      then (let gdf2Groups = map first_value (listGroups gdf2)
            in List.map_filter
                 (\<lambda>(groupKey, group).
                    let isContained = (first_value groupKey \<in> set gdf2Groups);
                        filterCondition = (\<lambda>b. if b then Some group else None)
                    in if type = ''out'' then filterCondition (\<not> isContained)
                       else filterCondition isContained)
                 (toCollection_gdf gdf1))
      else map snd (toCollection_gdf gdf1))"

text \<open>\<^verbatim>\<open>_join\<close>: the kept groups of both sides, each restructured to the united schema,
  folded with \<^verbatim>\<open>union\<close> by a \<^verbatim>\<open>reduce\<close> that has no initial value.\<close>

definition join_groups :: "DataFrame \<Rightarrow> DataFrame \<Rightarrow> string \<Rightarrow> string \<times> string \<Rightarrow> DataFrame list" where
  "join_groups this dfToJoin on types =
     (let gdf = groupBy this [on]; gdfToJoin = groupBy dfToJoin [on]
      in joinByType gdf gdfToJoin (fst types) @ joinByType gdfToJoin gdf (snd types))"

definition join_prim :: "DataFrame \<Rightarrow> DataFrame \<Rightarrow> string \<Rightarrow> string \<times> string \<Rightarrow> error + DataFrame" where
  "join_prim this dfToJoin on types =
     (let newColumns = uniq (listColumns this @ listColumns dfToJoin)
      in case iter (join_groups this dfToJoin on types)
                (\<lambda>group. case restructure group newColumns of
                            Inl e \<Rightarrow> Inl e
                          | Inr g \<Rightarrow> Inr (Some g)) of
           Inl e \<Rightarrow> Inl e
         | Inr groups \<Rightarrow> reduce union_df groups)"

definition innerJoin :: "DataFrame \<Rightarrow> DataFrame \<Rightarrow> string \<Rightarrow> error + DataFrame" where
  "innerJoin this dfToJoin on = join_prim this dfToJoin on (''in'', ''in'')"

definition fullJoin :: "DataFrame \<Rightarrow> DataFrame \<Rightarrow> string \<Rightarrow> error + DataFrame" where
  "fullJoin this dfToJoin on = join_prim this dfToJoin on ([], [])"

definition outerJoin :: "DataFrame \<Rightarrow> DataFrame \<Rightarrow> string \<Rightarrow> error + DataFrame" where
  "outerJoin this dfToJoin on = join_prim this dfToJoin on (''out'', ''out'')"

definition leftJoin :: "DataFrame \<Rightarrow> DataFrame \<Rightarrow> string \<Rightarrow> error + DataFrame" where
  "leftJoin this dfToJoin on = join_prim this dfToJoin on ([], ''in'')"

definition rightJoin :: "DataFrame \<Rightarrow> DataFrame \<Rightarrow> string \<Rightarrow> error + DataFrame" where
  "rightJoin this dfToJoin on = join_prim this dfToJoin on (''in'', [])"

text \<open>\<^verbatim>\<open>join\<close> with its five modes.\<close>

datatype how = Inner | Full | Outer | Left | Right

fun join :: "DataFrame \<Rightarrow> DataFrame \<Rightarrow> string \<Rightarrow> how \<Rightarrow> error + DataFrame" where
  "join this dfToJoin on Inner = innerJoin this dfToJoin on"
| "join this dfToJoin on Full = fullJoin this dfToJoin on"
| "join this dfToJoin on Outer = outerJoin this dfToJoin on"
| "join this dfToJoin on Left = leftJoin this dfToJoin on"
| "join this dfToJoin on Right = rightJoin this dfToJoin on"

text \<open>The pair of types that each mode hands to \<^verbatim>\<open>_join\<close>.\<close>

fun join_types :: "how \<Rightarrow> string \<times> string" where
  "join_types Inner = (''in'', ''in'')"
| "join_types Full = ([], [])"
| "join_types Outer = (''out'', ''out'')"
| "join_types Left = ([], ''in'')"
| "join_types Right = (''in'', [])"

section \<open>The table registry of the SQL module\<close>

text \<open>
  The value handed to \<^verbatim>\<open>registerTable\<close>: a DataFrame, an object of another class (or a
  primitive), given by the name of its constructor, or a value on which reading
  \<^verbatim>\<open>df.constructor.name\<close> throws: \<^verbatim>\<open>null\<close>, \<^verbatim>\<open>undefined\<close>, an object without a
  constructor.
\<close>

datatype table_value = DataFrameValue DataFrame | ObjectValue string | NoConstructor

fun constructor_name :: "table_value \<Rightarrow> error + string" where
  "constructor_name (DataFrameValue d) = Inr ''DataFrame''"
| "constructor_name (ObjectValue name) = Inr name"
| "constructor_name NoConstructor = Inl TypeError"

text \<open>
  The registry \<^verbatim>\<open>SQL.tables\<close> is a plain object; the model is the list of its own
  (name, value) properties in the order in which \<^verbatim>\<open>Object.keys\<close> lists them: the names
  that are array indices first, in ascending numeric order, then the other names in the
  order of their creation.
\<close>

type_synonym tables = "(string \<times> table_value) list"

text \<open>The value of a decimal digit: its place among the ten digits.\<close>

fun place_of :: "char \<Rightarrow> string \<Rightarrow> nat \<Rightarrow> nat option" where
  "place_of c [] n = None"
| "place_of c (x # xs) n = (if x = c then Some n else place_of c xs (Suc n))"

definition digit_value :: "char \<Rightarrow> nat option" where
  "digit_value c = place_of c ''0123456789'' 0"

fun digits_value :: "string \<Rightarrow> nat \<Rightarrow> nat option" where
  "digits_value [] acc = Some acc"
| "digits_value (c # cs) acc =
     (case digit_value c of None \<Rightarrow> None | Some v \<Rightarrow> digits_value cs (10 * acc + v))"

text \<open>An array index: the canonical decimal numeral of a number below \<open>2\<^sup>3\<^sup>2 - 1\<close>.\<close>

definition array_index :: "string \<Rightarrow> nat option" where
  "array_index s =
     (if s = [] then None
      else if hd s = CHR ''0'' \<and> s \<noteq> ''0'' then None
      else (case digits_value s 0 of
              None \<Rightarrow> None
            | Some n \<Rightarrow> (if n < 4294967295 then Some n else None)))"

text \<open>A new own property: an array index goes before the first name that is no array
  index or is a greater one; any other name goes last.\<close>

fun insert_index :: "tables \<Rightarrow> nat \<Rightarrow> string \<Rightarrow> table_value \<Rightarrow> tables" where
  "insert_index [] n k v = [(k, v)]"
| "insert_index ((k', v') # rest) n k v =
     (case array_index k' of
        None \<Rightarrow> (k, v) # (k', v') # rest
      | Some m \<Rightarrow> (if m < n then (k', v') # insert_index rest n k v
                  else (k, v) # (k', v') # rest))"

text \<open>An existing own property keeps its place and takes the new value.\<close>

fun replace_value :: "tables \<Rightarrow> string \<Rightarrow> table_value \<Rightarrow> tables" where
  "replace_value [] k v = []"
| "replace_value ((k', v') # rest) k v =
     (if k' = k then (k, v) # rest else (k', v') # replace_value rest k v)"

text \<open>
  The assignment \<^verbatim>\<open>SQL.tables[tableName] = df\<close>. The name \<^verbatim>\<open>__proto__\<close> is the
  accessor of the prototype: assigning an object to it creates no own property (the
  prototype itself is not represented).
\<close>

definition assign :: "tables \<Rightarrow> string \<Rightarrow> table_value \<Rightarrow> tables" where
  "assign tbls k v =
     (if k = ''__proto__'' then tbls
      else if k \<in> set (map fst tbls) then replace_value tbls k v
      else (case array_index k of
              None \<Rightarrow> tbls @ [(k, v)]
            | Some n \<Rightarrow> insert_index tbls n k v))"

definition listTables :: "tables \<Rightarrow> string list" where
  "listTables tbls = map fst tbls"

text \<open>\<^verbatim>\<open>registerTable\<close>: the test of the constructor's name comes first and reads
  \<^verbatim>\<open>df.constructor.name\<close>.\<close>

definition registerTable :: "tables \<Rightarrow> table_value \<Rightarrow> string \<Rightarrow> bool \<Rightarrow> error + tables" where
  "registerTable tbls df tableName overwrite =
     (case constructor_name df of
        Inl e \<Rightarrow> Inl e
      | Inr name \<Rightarrow>
          (if \<not> (name = ''DataFrame'') then Inl InputTypeError
           else if tableName \<in> set (listTables tbls) \<and> \<not> overwrite
           then Inl TableAlreadyExistsError
           else Inr (assign tbls tableName df)))"

section \<open>The data-model invariant\<close>

text \<open>Every row is padded to exactly the schema; the names of the schema are unique and
  normalized (they hold no space).\<close>

definition rows_padded :: "DataFrame \<Rightarrow> bool" where
  "rows_padded d = list_all (\<lambda>r. map fst r = columns d) (rows d)"

definition wf_df :: "DataFrame \<Rightarrow> bool" where
  "wf_df d =
     (rows_padded d
      \<and> list_all (\<lambda>c. CHR '' '' \<notin> set c) (columns d)
      \<and> distinct (columns d))"

section \<open>The claims in the words of the spec\<close>

text \<open>A row satisfies a predicate: the function returns true, or every pair of the
  equality mapping matches.\<close>

fun satisfies :: "condition \<Rightarrow> Row \<Rightarrow> bool" where
  "satisfies (CondFunc f) row = f row"
| "satisfies (CondObj entries) row = list_all (\<lambda>(column, v). Row_get row column = v) entries"

text \<open>The mode table of the joins: whether a left group is included, given that its key
  is present in the right side, and whether a right group is included, given that its
  key is present in the left side.\<close>

fun left_included :: "how \<Rightarrow> bool \<Rightarrow> bool" where
  "left_included Inner present = present"
| "left_included Left present = True"
| "left_included Right present = present"
| "left_included Outer present = (\<not> present)"
| "left_included Full present = True"

fun right_included :: "how \<Rightarrow> bool \<Rightarrow> bool" where
  "right_included Inner present = present"
| "right_included Left present = present"
| "right_included Right present = True"
| "right_included Outer present = (\<not> present)"
| "right_included Full present = True"

definition table_groups :: "how \<Rightarrow> DataFrame \<Rightarrow> DataFrame \<Rightarrow> string \<Rightarrow> DataFrame list" where
  "table_groups m a b k =
     (let ga = groupBy a [k]; gb = groupBy b [k]
      in map snd (filter (\<lambda>(key, g). left_included m (first_value key \<in> set (toArray_column b k))) ga)
         @ map snd (filter (\<lambda>(key, g). right_included m (first_value key \<in> set (toArray_column a k))) gb))"

text \<open>A group padded to the schema of the join.\<close>

definition padded_rows :: "string list \<Rightarrow> DataFrame \<Rightarrow> Row list" where
  "padded_rows cols g = map (\<lambda>r. Row_fromObject r cols) (rows g)"


section \<open>Column names at construction\<close>

lemma replace_space_no_space: "CHR '' '' \<notin> set s \<Longrightarrow> replace_space s = s"
  by (induction s) auto

lemma map_replace_space_no_space:
  "list_all (\<lambda>c. CHR '' '' \<notin> set c) cs \<Longrightarrow> map replace_space cs = cs"
  by (induction cs) (auto simp: replace_space_no_space)

text \<open>
  C7. The claim: construction removes every space of a supplied column name. The code
  removes the first space only: the name \<open>a b c\<close> is stored as \<open>ab c\<close>.
\<close>

theorem C7_constructor_keeps_second_space:
  "map_sum id listColumns (DataFrame_new (DataArr [RowArr [Num 1]]) (Some [''a b c'']))
     = Inr [''ab c'']"
  by (simp add: DataFrame_new_def dropSpacesInColumnNames_def fromArray_def listColumns_def)

section \<open>New instances\<close>

lemma the_Rows_map [simp]: "the_Rows (map RowRow rs) = rs"
  by (induction rs) auto

lemma instanceof_Row_map [simp]: "instanceof_Row (map RowRow rs) = (rs \<noteq> [])"
  by (cases rs) auto

lemma DataFrame_new_array:
  "DataFrame_new (DataArr dat) (Some cols) =
     Inr \<lparr>rows = map (\<lambda>row. Row_new row (map replace_space cols)) dat,
          columns = map replace_space cols\<rparr>"
  by (simp add: DataFrame_new_def dropSpacesInColumnNames_def fromArray_def)

lemma newInstance_same_columns:
  "newInstance this (map RowRow rs) (columns this) =
     Inr \<lparr>rows = rs,
          columns = (if rs = [] then map replace_space (map replace_space (columns this))
                     else map replace_space (columns this))\<rparr>"
  by (simp add: newInstance_def arrayEqual_def DataFrame_new_array dropSpacesInColumnNames_def)

lemma newInstance_empty:
  "newInstance this [] [] = Inr \<lparr>rows = [], columns = []\<rparr>"
  by (simp add: newInstance_def DataFrame_new_array dropSpacesInColumnNames_def)

section \<open>Union\<close>

text \<open>
  C4. When the two schemas are identical, \<open>union\<close> returns a DataFrame whose rows are the
  receiver's rows followed by the argument's rows, so the counts add up; when the schemas
  differ, it fails with the schema error.
\<close>

theorem C4_union:
  "(listColumns a = listColumns b \<longrightarrow>
      (\<exists>d. union_df a b = Inr d \<and> rows d = rows a @ rows b
           \<and> count_df d = count_df a + count_df b))
   \<and> (listColumns a \<noteq> listColumns b \<longrightarrow> union_df a b = Inl WrongSchemaError)"
proof (intro conjI impI)
  assume eq: "listColumns a = listColumns b"
  have "union_df a b = newInstance a (map RowRow (rows a @ rows b)) (columns a)"
    using eq by (simp add: union_df_def arrayEqual_def listColumns_def)
  then have "\<exists>cs. union_df a b = Inr \<lparr>rows = rows a @ rows b, columns = cs\<rparr>"
    by (simp only: newInstance_same_columns) blast
  then show "\<exists>d. union_df a b = Inr d \<and> rows d = rows a @ rows b
               \<and> count_df d = count_df a + count_df b"
    by (auto simp: count_df_def)
next
  assume "listColumns a \<noteq> listColumns b"
  then show "union_df a b = Inl WrongSchemaError"
    by (simp add: union_df_def arrayEqual_def listColumns_def)
qed

theorem C4_union_witness:
  "(\<exists>d. union_df \<lparr>rows = [[(''n'', Num 2)]], columns = [''n'']\<rparr>
                   \<lparr>rows = [[(''n'', Num 1)]], columns = [''n'']\<rparr> = Inr d
        \<and> rows d = [[(''n'', Num 2)], [(''n'', Num 1)]] \<and> count_df d = 2)
   \<and> union_df \<lparr>rows = [[(''n'', Num 2)]], columns = [''n'']\<rparr>
               \<lparr>rows = [[(''m'', Num 1)]], columns = [''m'']\<rparr> = Inl WrongSchemaError"
  using C4_union [of "\<lparr>rows = [[(''n'', Num 2)]], columns = [''n'']\<rparr>"
                     "\<lparr>rows = [[(''n'', Num 1)]], columns = [''n'']\<rparr>"]
        C4_union [of "\<lparr>rows = [[(''n'', Num 2)]], columns = [''n'']\<rparr>"
                     "\<lparr>rows = [[(''m'', Num 1)]], columns = [''m'']\<rparr>"]
  by (auto simp: listColumns_def count_df_def)

section \<open>The table registry\<close>

lemma map_of_replace_value:
  "map_of (replace_value tbls k v) m = (if m = k \<and> k \<in> fst ` set tbls then Some v else map_of tbls m)"
  by (induction tbls) (force simp: image_iff)+

lemma set_fst_replace_value: "fst ` set (replace_value tbls k v) = fst ` set tbls"
  by (induction tbls) force+

lemma map_of_insert_index:
  "k \<notin> fst ` set tbls \<Longrightarrow>
   map_of (insert_index tbls n k v) m = (if m = k then Some v else map_of tbls m)"
  by (induction tbls) (auto split: option.splits)

lemma set_fst_insert_index: "fst ` set (insert_index tbls n k v) = insert k (fst ` set tbls)"
  by (induction tbls) (force split: option.splits)+

lemma map_of_append_new:
  "k \<notin> fst ` set tbls \<Longrightarrow>
   map_of (tbls @ [(k, v)]) m = (if m = k then Some v else map_of tbls m)"
  by (induction tbls) auto

lemma map_of_assign:
  assumes "k \<noteq> ''__proto__''"
  shows "map_of (assign tbls k v) m = (if m = k then Some v else map_of tbls m)"
proof (cases "k \<in> fst ` set tbls")
  case True
  with assms show ?thesis
    by (simp add: assign_def map_of_replace_value)
next
  case False
  with assms show ?thesis
    by (cases "array_index k")
       (simp_all add: assign_def map_of_insert_index map_of_append_new del: map_of_append)
qed

lemma set_fst_assign:
  "k \<noteq> ''__proto__'' \<Longrightarrow> fst ` set (assign tbls k v) = insert k (fst ` set tbls)"
  by (auto simp: assign_def set_fst_replace_value set_fst_insert_index split: option.splits)

text \<open>
  Registering a DataFrame fails with the table-exists error exactly when the name is
  already registered and \<open>overwrite\<close> is false; otherwise, for a name other than
  \<open>__proto__\<close>, the registry afterwards maps the name to the DataFrame, \<open>listTables\<close> holds
  the name, and the other entries are as before. Registering an object whose constructor
  is not named DataFrame fails with the input-type error.
\<close>

theorem registerTable_objects:
  "(registerTable tbls (DataFrameValue df) n ow = Inl TableAlreadyExistsError
      \<longleftrightarrow> (n \<in> set (listTables tbls) \<and> \<not> ow))
   \<and> (\<not> (n \<in> set (listTables tbls) \<and> \<not> ow) \<and> n \<noteq> ''__proto__'' \<longrightarrow>
        (\<exists>tbls'. registerTable tbls (DataFrameValue df) n ow = Inr tbls'
           \<and> map_of tbls' n = Some (DataFrameValue df)
           \<and> n \<in> set (listTables tbls')
           \<and> (\<forall>m. m \<noteq> n \<longrightarrow> map_of tbls' m = map_of tbls m)))
   \<and> (name \<noteq> ''DataFrame'' \<longrightarrow> registerTable tbls (ObjectValue name) n ow = Inl InputTypeError)"
  by (auto simp: registerTable_def listTables_def map_of_assign set_fst_assign)

text \<open>
  C9. The claim: registering a value that is not a DataFrame fails with the input-type
  error. For \<open>undefined\<close> and \<open>null\<close> the test itself throws: reading the constructor of
  the value raises a TypeError before any name is compared.
\<close>

theorem C9_registerTable_undefined_throws_TypeError:
  "registerTable [] NoConstructor ''t'' False = Inl TypeError
   \<and> registerTable [] NoConstructor ''t'' False \<noteq> Inl InputTypeError"
  by (simp add: registerTable_def)

section \<open>Filter and map\<close>

lemma iter_filter:
  "iter xs (\<lambda>row. Inr (if p row then Some row else None)) = Inr (filter p xs)"
  by (induction xs) auto

lemma iter_map: "iter xs (\<lambda>row. Inr (Some (f row))) = Inr (map f xs)"
  by (induction xs) auto

lemma foldl_err_and: "foldl_err (\<lambda>p n. Inr (p \<and> n)) b bs = Inr (b \<and> list_all (\<lambda>x. x) bs)"
  by (induction bs arbitrary: b) auto

lemma condition_func_satisfies:
  "cond \<noteq> CondObj [] \<Longrightarrow> condition_func cond row = Inr (satisfies cond row)"
proof (cases cond)
  case (CondFunc f)
  then show ?thesis by simp
next
  case (CondObj entries)
  assume "cond \<noteq> CondObj []"
  with CondObj obtain e es where "entries = e # es" by (cases entries) auto
  with CondObj show ?thesis
    by (simp add: foldl_err_and list_all_iff split: prod.splits) 
qed

lemma filter_df_rows:
  assumes "cond \<noteq> CondObj [] \<or> rows d = []"
  shows "filter_df d cond =
           Inr \<lparr>rows = filter (satisfies cond) (rows d),
                columns = (if filter (satisfies cond) (rows d) = [] then []
                           else map replace_space (columns d))\<rparr>"
proof (cases "rows d = []")
  case True
  then show ?thesis by (simp add: filter_df_def newInstance_empty)
next
  case False
  with assms have ne: "cond \<noteq> CondObj []" by simp
  have "iter (rows d) (\<lambda>row. case condition_func cond row of Inl e \<Rightarrow> Inl e
                               | Inr b \<Rightarrow> Inr (if b then Some row else None))
          = Inr (filter (satisfies cond) (rows d))"
    by (simp add: condition_func_satisfies [OF ne] iter_filter)
  then show ?thesis
    by (simp add: filter_df_def newInstance_empty newInstance_same_columns)
qed

text \<open>
  For a predicate that is a row function, or an equality mapping with at least one pair
  (or for a DataFrame without rows), \<open>filter\<close> returns exactly the rows that satisfy the
  predicate, in their order, so the count does not grow; when no row satisfies it, the
  result has no rows and an empty schema.
\<close>

theorem filter_df_matching_rows:
  assumes "cond \<noteq> CondObj [] \<or> rows d = []"
  shows "\<exists>d'. filter_df d cond = Inr d'
            \<and> rows d' = filter (satisfies cond) (rows d)
            \<and> count_df d' \<le> count_df d
            \<and> (filter (satisfies cond) (rows d) = [] \<longrightarrow> count_df d' = 0 \<and> listColumns d' = [])"
  using filter_df_rows [OF assms] by (simp add: count_df_def listColumns_def)

theorem filter_df_matching_rows_example:
  "\<exists>d'. filter_df \<lparr>rows = [[(''c1'', Num 1), (''c2'', Num 2)], [(''c1'', Num 3), (''c2'', Num 2)]],
                   columns = [''c1'', ''c2'']\<rparr> (CondObj [(''c1'', Num 1), (''c2'', Num 2)]) = Inr d'
      \<and> rows d' = [[(''c1'', Num 1), (''c2'', Num 2)]]"
  using filter_df_matching_rows [of "CondObj [(''c1'', Num 1), (''c2'', Num 2)]"
     "\<lparr>rows = [[(''c1'', Num 1), (''c2'', Num 2)], [(''c1'', Num 3), (''c2'', Num 2)]],
                   columns = [''c1'', ''c2'']\<rparr>"]
  by (auto simp: Row_get_def)

text \<open>
  C5. The claim: \<open>filter\<close> returns exactly the rows that satisfy the predicate, an
  equality mapping being the conjunction of its pairs. For the empty mapping every row
  satisfies the conjunction of no pairs, and the code throws on a DataFrame that has rows,
  because the fold of the pairs has no initial value.
\<close>

theorem C5_filter_empty_mapping_throws:
  "filter_df \<lparr>rows = [[(''c1'', Num 1)]], columns = [''c1'']\<rparr> (CondObj []) = Inl TypeError
   \<and> filter (satisfies (CondObj [])) (rows \<lparr>rows = [[(''c1'', Num 1)]], columns = [''c1'']\<rparr>)
       = [[(''c1'', Num 1)]]"
  by (simp add: filter_df_def)

section \<open>Renaming\<close>


lemma instanceof_Row_arrays [simp]: "\<not> instanceof_Row (map (\<lambda>row. RowArr (f row)) xs)"
  by (cases xs) auto









section \<open>Grouping\<close>

lemma set_uniq [simp]: "set (uniq xs) = set xs"
  by (induction xs rule: uniq.induct) auto

lemma uniq_map_inj: "inj f \<Longrightarrow> uniq (map f xs) = map f (uniq xs)"
proof (induction xs rule: uniq.induct)
  case 1
  then show ?case by simp
next
  case (2 x xs)
  have "filter (\<lambda>y. y \<noteq> f x) (map f xs) = map f (filter (\<lambda>y. y \<noteq> x) xs)"
    using "2.prems" by (simp add: filter_map o_def inj_eq)
  with 2 show ?case by simp
qed

lemma groupBy_single:
  "groupBy d [k] =
     map (\<lambda>v. ([(k, v)], \<lparr>rows = filter (\<lambda>row. Row_get row k = v) (rows d), columns = columns d\<rparr>))
       (uniq (toArray_column d k))"
proof -
  have inj: "inj (\<lambda>v::val. [(k, v)])" by (simp add: inj_def)
  have "map (group_key [k]) (rows d) = map (\<lambda>v. [(k, v)]) (toArray_column d k)"
    by (simp add: group_key_def toArray_column_def)
  then have "uniq (map (group_key [k]) (rows d)) = map (\<lambda>v. [(k, v)]) (uniq (toArray_column d k))"
    by (simp only: uniq_map_inj [OF inj])
  then show ?thesis
    by (simp add: groupBy_def group_key_def)
qed

lemma group_values: "first_value ` fst ` set (groupBy d [k]) = set (toArray_column d k)"
  by (force simp: groupBy_single first_value_def)

lemma map_filter_cond:
  "List.map_filter (\<lambda>(key, g). if P key then Some g else None) xs
     = map snd (filter (\<lambda>(key, g). P key) xs)"
  by (induction xs) (auto simp: List.map_filter_simps)

lemma joinByType_in:
  "joinByType (groupBy a [k]) (groupBy b [k]) ''in''
     = map snd (filter (\<lambda>(key, g). first_value key \<in> set (toArray_column b k)) (groupBy a [k]))"
  using group_values [of b k]
  by (simp add: joinByType_def listGroups_def toCollection_gdf_def map_filter_cond image_image)

lemma joinByType_out:
  "joinByType (groupBy a [k]) (groupBy b [k]) ''out''
     = map snd (filter (\<lambda>(key, g). first_value key \<notin> set (toArray_column b k)) (groupBy a [k]))"
  using group_values [of b k]
  by (simp add: joinByType_def listGroups_def toCollection_gdf_def map_filter_cond image_image)

lemma joinByType_all:
  "joinByType (groupBy a [k]) (groupBy b [k]) [] = map snd (groupBy a [k])"
  by (simp add: joinByType_def toCollection_gdf_def)

lemma join_join_prim: "join a b k m = join_prim a b k (join_types m)"
  by (cases m) (simp_all add: innerJoin_def fullJoin_def outerJoin_def leftJoin_def rightJoin_def)

lemma join_groups_table: "join_groups a b k (join_types m) = table_groups m a b k"
  by (cases m)
     (simp_all add: join_groups_def table_groups_def joinByType_in joinByType_out joinByType_all)

section \<open>Joins\<close>

lemma map_of_keys:
  "map_of (map (\<lambda>c. (c, f c)) cols) c = (if c \<in> set cols then Some (f c) else None)"
  by (induction cols) auto

lemma Row_get_fromObject:
  "Row_get (Row_fromObject r cols) c = (if c \<in> set cols then Row_get r c else Undefined)"
  by (simp add: Row_get_def Row_fromObject_def map_of_keys)

lemma Row_fromObject_same:
  assumes "distinct (map fst r)"
  shows "Row_fromObject r (map fst r) = r"
proof -
  have "\<And>x. x \<in> set r \<Longrightarrow> map_of r (fst x) = Some (snd x)"
    using assms by (cases rule: prod.exhaust) (auto)
  then show ?thesis
    by (simp add: Row_fromObject_def o_def map_idI)
qed

lemma restructure_padded:
  assumes pad: "rows_padded g" and dist: "distinct (columns g)"
    and ns: "list_all (\<lambda>c. CHR '' '' \<notin> set c) nc"
  shows "restructure g nc = Inr \<lparr>rows = padded_rows nc g, columns = nc\<rparr>"
proof (cases "nc = columns g \<and> rows g \<noteq> []")
  case True
  have "Row_fromObject r nc = r" if "r \<in> set (rows g)" for r
  proof -
    from that pad True have e: "map fst r = nc"
      by (simp add: rows_padded_def list_all_iff)
    with dist True have "distinct (map fst r)" by simp
    from Row_fromObject_same [OF this] e show ?thesis by simp
  qed
  then have "padded_rows nc g = rows g"
    by (simp add: padded_rows_def map_idI)
  with True ns show ?thesis
    by (simp add: restructure_def newInstance_def arrayEqual_def map_replace_space_no_space)
next
  case False
  then show ?thesis
    using ns
    by (auto simp: restructure_def newInstance_def arrayEqual_def DataFrame_new_array
        dropSpacesInColumnNames_def map_replace_space_no_space padded_rows_def o_def)
qed

lemma iter_all_some:
  "(\<And>x. x \<in> set xs \<Longrightarrow> f x = Inr (Some (h x))) \<Longrightarrow> iter xs f = Inr (map h xs)"
  by (induction xs) auto

lemma union_df_same:
  assumes "columns p = nc" "columns g = nc" "list_all (\<lambda>c. CHR '' '' \<notin> set c) nc"
  shows "union_df p g = Inr \<lparr>rows = rows p @ rows g, columns = nc\<rparr>"
proof -
  have "union_df p g = newInstance p (map RowRow (rows p @ rows g)) (columns p)"
    using assms by (simp add: union_df_def arrayEqual_def)
  also have "\<dots> = Inr \<lparr>rows = rows p @ rows g,
      columns = (if rows p @ rows g = [] then map replace_space (map replace_space (columns p))
                 else map replace_space (columns p))\<rparr>"
    by (rule newInstance_same_columns)
  also have "\<dots> = Inr \<lparr>rows = rows p @ rows g, columns = nc\<rparr>"
    using assms by (simp add: map_replace_space_no_space)
  finally show ?thesis .
qed

lemma foldl_err_union:
  assumes "list_all (\<lambda>c. CHR '' '' \<notin> set c) nc"
  shows "columns p = nc \<Longrightarrow> (\<And>g. g \<in> set gs \<Longrightarrow> columns g = nc) \<Longrightarrow>
         foldl_err union_df p gs = Inr \<lparr>rows = rows p @ concat (map rows gs), columns = nc\<rparr>"
proof (induction gs arbitrary: p)
  case Nil
  then show ?case by simp
next
  case (Cons g gs)
  have u: "union_df p g = Inr \<lparr>rows = rows p @ rows g, columns = nc\<rparr>"
    using Cons.prems assms by (simp add: union_df_same)
  show ?case
    using Cons.IH [of "\<lparr>rows = rows p @ rows g, columns = nc\<rparr>"] Cons.prems
    by (simp add: u)
qed

lemma reduce_union:
  assumes "list_all (\<lambda>c. CHR '' '' \<notin> set c) nc"
  shows "reduce union_df (map (\<lambda>g. \<lparr>rows = f g, columns = nc\<rparr>) gs)
           = (if gs = [] then Inl TypeError else Inr \<lparr>rows = concat (map f gs), columns = nc\<rparr>)"
proof (cases gs)
  case Nil
  then show ?thesis by simp
next
  case (Cons g gs')
  have "foldl_err union_df \<lparr>rows = f g, columns = nc\<rparr>
          (map (\<lambda>g. \<lparr>rows = f g, columns = nc\<rparr>) gs')
        = Inr \<lparr>rows = rows \<lparr>rows = f g, columns = nc\<rparr>
                     @ concat (map rows (map (\<lambda>g. \<lparr>rows = f g, columns = nc\<rparr>) gs')),
                columns = nc\<rparr>"
    by (rule foldl_err_union [OF assms]) auto
  then show ?thesis
    by (simp add: Cons o_def)
qed

lemma table_groups_from:
  "g \<in> set (table_groups m a b k) \<Longrightarrow>
     (\<exists>v. g = \<lparr>rows = filter (\<lambda>row. Row_get row k = v) (rows a), columns = columns a\<rparr>
           \<and> left_included m (v \<in> set (toArray_column b k)) \<and> v \<in> set (toArray_column a k))
   \<or> (\<exists>v. g = \<lparr>rows = filter (\<lambda>row. Row_get row k = v) (rows b), columns = columns b\<rparr>
           \<and> right_included m (v \<in> set (toArray_column a k)) \<and> v \<in> set (toArray_column b k))"
  by (auto simp: table_groups_def groupBy_single first_value_def)

lemma table_group_wf:
  assumes "wf_df a" "wf_df b" "g \<in> set (table_groups m a b k)"
  shows "rows_padded g \<and> distinct (columns g)"
  using table_groups_from [OF assms(3)] assms(1,2)
  by (auto simp: wf_df_def rows_padded_def list_all_iff)

lemma join_prim_table:
  assumes "wf_df a" "wf_df b"
  shows "join a b k m =
     (if table_groups m a b k = [] then Inl TypeError
      else Inr \<lparr>rows = concat (map (padded_rows (uniq (listColumns a @ listColumns b)))
                                 (table_groups m a b k)),
               columns = uniq (listColumns a @ listColumns b)\<rparr>)"
proof -
  let ?nc = "uniq (listColumns a @ listColumns b)"
  have ns: "list_all (\<lambda>c. CHR '' '' \<notin> set c) ?nc"
    using assms by (auto simp: wf_df_def list_all_iff listColumns_def)
  have "iter (table_groups m a b k)
          (\<lambda>group. case restructure group ?nc of Inl e \<Rightarrow> Inl e | Inr g \<Rightarrow> Inr (Some g))
        = Inr (map (\<lambda>g. \<lparr>rows = padded_rows ?nc g, columns = ?nc\<rparr>) (table_groups m a b k))"
    by (rule iter_all_some) (simp add: restructure_padded table_group_wf [OF assms] ns)
  then show ?thesis
    by (simp add: join_join_prim join_prim_def join_groups_table Let_def reduce_union [OF ns])
qed

lemma Row_get_padded:
  assumes "set (map fst r) \<subseteq> set nc"
  shows "Row_get (Row_fromObject r nc) k = Row_get r k"
proof (cases "k \<in> set nc")
  case True
  then show ?thesis by (simp add: Row_get_fromObject)
next
  case False
  with assms have "k \<notin> fst ` set r" by auto
  then have "map_of r k = None" by (simp add: map_of_eq_None_iff)
  then have "Row_get r k = Undefined" by (simp add: Row_get_def)
  with False show ?thesis by (simp add: Row_get_fromObject)
qed

text \<open>
  For DataFrames that satisfy the data-model invariant, every row of the inner join has in
  the join column a value that occurs in that column of both sides. For each of the five
  modes, the join fails when the mode table includes no group, and otherwise returns the
  rows of the groups that the mode table includes, the left groups first, each row padded
  to the united schema.
\<close>

theorem join_follows_mode_table:
  assumes "wf_df a" "wf_df b"
  shows "(\<forall>d. innerJoin a b k = Inr d \<longrightarrow>
            (\<forall>r \<in> set (rows d). Row_get r k \<in> set (toArray_column a k)
                                \<and> Row_get r k \<in> set (toArray_column b k)))
       \<and> (\<forall>m. join a b k m =
            (if table_groups m a b k = [] then Inl TypeError
             else Inr \<lparr>rows = concat (map (padded_rows (uniq (listColumns a @ listColumns b)))
                                        (table_groups m a b k)),
                      columns = uniq (listColumns a @ listColumns b)\<rparr>))"
proof (intro conjI allI impI ballI)
  fix m
  show "join a b k m =
            (if table_groups m a b k = [] then Inl TypeError
             else Inr \<lparr>rows = concat (map (padded_rows (uniq (listColumns a @ listColumns b)))
                                        (table_groups m a b k)),
                      columns = uniq (listColumns a @ listColumns b)\<rparr>)"
    by (rule join_prim_table [OF assms])
next
  fix d r
  let ?nc = "uniq (listColumns a @ listColumns b)"
  assume res: "innerJoin a b k = Inr d" and r: "r \<in> set (rows d)"
  from res have "join a b k Inner = Inr d" by simp
  then have "rows d = concat (map (padded_rows ?nc) (table_groups Inner a b k))"
    unfolding join_prim_table [OF assms, of k Inner] by (auto split: if_splits)
  with r obtain g r0 where g: "g \<in> set (table_groups Inner a b k)"
    and r0: "r0 \<in> set (rows g)" and rr: "r = Row_fromObject r0 ?nc"
    by (auto simp: padded_rows_def)
  from table_group_wf [OF assms g] r0 have keys: "map fst r0 = columns g"
    by (simp add: rows_padded_def list_all_iff)
  from table_groups_from [OF g]
  have "columns g = columns a \<or> columns g = columns b" by auto
  with keys have "set (map fst r0) \<subseteq> set ?nc"
    by (auto simp: listColumns_def)
  then have get: "Row_get r k = Row_get r0 k"
    unfolding rr by (rule Row_get_padded)
  from table_groups_from [OF g] r0
  have "Row_get r0 k \<in> set (toArray_column a k) \<and> Row_get r0 k \<in> set (toArray_column b k)"
    by (elim disjE exE conjE) simp_all
  with get show "Row_get r k \<in> set (toArray_column a k)"
    and "Row_get r k \<in> set (toArray_column b k)" by simp_all
qed

theorem join_follows_mode_table_example:
  "wf_df \<lparr>rows = [[(''id'', Num 1), (''x'', Str ''L'')]], columns = [''id'', ''x'']\<rparr>
   \<and> wf_df \<lparr>rows = [[(''id'', Num 1), (''y'', Str ''R'')], [(''id'', Num 2), (''y'', Str ''R2'')]],
             columns = [''id'', ''y'']\<rparr>
   \<and> innerJoin \<lparr>rows = [[(''id'', Num 1), (''x'', Str ''L'')]], columns = [''id'', ''x'']\<rparr>
        \<lparr>rows = [[(''id'', Num 1), (''y'', Str ''R'')], [(''id'', Num 2), (''y'', Str ''R2'')]],
             columns = [''id'', ''y'']\<rparr> ''id''
      = Inr \<lparr>rows = [[(''id'', Num 1), (''x'', Str ''L''), (''y'', Undefined)],
                      [(''id'', Num 1), (''x'', Undefined), (''y'', Str ''R'')]],
              columns = [''id'', ''x'', ''y'']\<rparr>"
proof -
  let ?a = "\<lparr>rows = [[(''id'', Num 1), (''x'', Str ''L'')]], columns = [''id'', ''x'']\<rparr>"
  let ?b = "\<lparr>rows = [[(''id'', Num 1), (''y'', Str ''R'')], [(''id'', Num 2), (''y'', Str ''R2'')]],
             columns = [''id'', ''y'']\<rparr>"
  have wa: "wf_df ?a" and wb: "wf_df ?b"
    by (simp_all add: wf_df_def rows_padded_def)
  from join_follows_mode_table [OF wa wb, of "''id''"]
  have "join ?a ?b ''id'' Inner =
            (if table_groups Inner ?a ?b ''id'' = [] then Inl TypeError
             else Inr \<lparr>rows = concat (map (padded_rows (uniq (listColumns ?a @ listColumns ?b)))
                                        (table_groups Inner ?a ?b ''id'')),
                      columns = uniq (listColumns ?a @ listColumns ?b)\<rparr>)"
    by blast
  then have "innerJoin ?a ?b ''id'' = Inr \<lparr>rows = [[(''id'', Num 1), (''x'', Str ''L''), (''y'', Undefined)],
                      [(''id'', Num 1), (''x'', Undefined), (''y'', Str ''R'')]],
              columns = [''id'', ''x'', ''y'']\<rparr>"
    by (simp add: table_groups_def groupBy_def group_key_def Row_get_def first_value_def
        toArray_column_def listColumns_def padded_rows_def Row_fromObject_def)
  with wa wb show ?thesis by blast
qed

text \<open>
  C3. The claim: every row of the inner join has in the join column a value that occurs in
  that column of both sides. Two DataFrames constructed with the column name \<open>i  d\<close> store
  it as \<open>i d\<close>, and both hold the key 1 there. Their inner join on \<open>i d\<close> restructures the
  groups to the united schema, whose names are normalized again to \<open>id\<close>; the rows are read
  under a name that they do not hold, and the key of every returned row is the no-value
  sentinel.
\<close>

theorem C3_innerJoin_loses_key_column:
  "DataFrame_new (DataArr [RowArr [Num 1, Str ''L'']]) (Some [''i  d'', ''x''])
     = Inr \<lparr>rows = [[(''i d'', Num 1), (''x'', Str ''L'')]], columns = [''i d'', ''x'']\<rparr>
   \<and> DataFrame_new (DataArr [RowArr [Num 1, Str ''R'']]) (Some [''i  d'', ''y''])
     = Inr \<lparr>rows = [[(''i d'', Num 1), (''y'', Str ''R'')]], columns = [''i d'', ''y'']\<rparr>
   \<and> toArray_column \<lparr>rows = [[(''i d'', Num 1), (''x'', Str ''L'')]], columns = [''i d'', ''x'']\<rparr> ''i d''
     = [Num 1]
   \<and> toArray_column \<lparr>rows = [[(''i d'', Num 1), (''y'', Str ''R'')]], columns = [''i d'', ''y'']\<rparr> ''i d''
     = [Num 1]
   \<and> innerJoin \<lparr>rows = [[(''i d'', Num 1), (''x'', Str ''L'')]], columns = [''i d'', ''x'']\<rparr>
                \<lparr>rows = [[(''i d'', Num 1), (''y'', Str ''R'')]], columns = [''i d'', ''y'']\<rparr> ''i d''
     = Inr \<lparr>rows = [[(''id'', Undefined), (''x'', Str ''L''), (''y'', Undefined)],
                     [(''id'', Undefined), (''x'', Undefined), (''y'', Str ''R'')]],
              columns = [''id'', ''x'', ''y'']\<rparr>"
  by (simp add: DataFrame_new_array Row_fromArray_def toArray_column_def Row_get_def
      innerJoin_def join_prim_def join_groups_def groupBy_def group_key_def joinByType_def
      listGroups_def toCollection_gdf_def first_value_def List.map_filter_simps listColumns_def
      restructure_def newInstance_def arrayEqual_def Row_fromObject_def union_df_def
      Let_def dropSpacesInColumnNames_def)

lemma table_groups_inner_empty:
  assumes "set (toArray_column a k) \<inter> set (toArray_column b k) = {}"
  shows "table_groups Inner a b k = []"
  using assms by (auto simp: table_groups_def groupBy_single first_value_def filter_empty_conv)

text \<open>
  C10. When no value of the join column of one side occurs in the join column of the other
  side, the inner join does not return a DataFrame: it throws the TypeError of a
  \<open>reduce\<close> over no groups without an initial value.
\<close>

theorem C10_innerJoin_disjoint_throws:
  assumes "set (toArray_column a on) \<inter> set (toArray_column b on) = {}"
  shows "innerJoin a b on = Inl TypeError"
proof -
  have "join_groups a b on (''in'', ''in'') = []"
    using join_groups_table [of a b on Inner] table_groups_inner_empty [OF assms] by simp
  then show ?thesis
    by (simp add: innerJoin_def join_prim_def)
qed

theorem C10_innerJoin_disjoint_throws_witness:
  "set (toArray_column \<lparr>rows = [[(''id'', Num 1), (''x'', Str ''L'')]], columns = [''id'', ''x'']\<rparr> ''id'')
     \<inter> set (toArray_column \<lparr>rows = [[(''id'', Num 2), (''y'', Str ''R'')]], columns = [''id'', ''y'']\<rparr> ''id'') = {}
   \<and> innerJoin \<lparr>rows = [[(''id'', Num 1), (''x'', Str ''L'')]], columns = [''id'', ''x'']\<rparr>
               \<lparr>rows = [[(''id'', Num 2), (''y'', Str ''R'')]], columns = [''id'', ''y'']\<rparr> ''id''
       = Inl TypeError"
  using C10_innerJoin_disjoint_throws
    [of "\<lparr>rows = [[(''id'', Num 1), (''x'', Str ''L'')]], columns = [''id'', ''x'']\<rparr>" "''id''"
        "\<lparr>rows = [[(''id'', Num 2), (''y'', Str ''R'')]], columns = [''id'', ''y'']\<rparr>"]
  by (simp add: toArray_column_def Row_get_def)

section \<open>Chain fusion\<close>

lemma map_df_rows:
  "map_df d f = Inr \<lparr>rows = map f (rows d),
      columns = (if rows d = [] then map replace_space (map replace_space (columns d))
                 else map replace_space (columns d))\<rparr>"
  by (simp add: map_df_def iter_map newInstance_same_columns del: map_map)

lemma chain_rows_filter:
  "chain_rows (filter p xs) fs = chain_rows xs (step_func (Filter p) # fs)"
  by (induction xs) (auto split: option.splits)

lemma chain_rows_map:
  "chain_rows (map f xs) fs = chain_rows xs (step_func (Map f) # fs)"
  by (induction xs) (auto split: option.splits)

lemma chain_rows_nil [simp]: "chain_rows xs [] = xs"
  by (induction xs) auto

lemma satisfies_CondFunc: "satisfies (CondFunc p) = p"
  by (rule ext) simp

lemma apply_plain_rows:
  "\<exists>d'. apply_plain d s = Inr d' \<and> rows d' = chain_rows (rows d) [step_func s]"
proof (cases s)
  case (Filter p)
  have "filter p (rows d) = chain_rows (rows d) [step_func (Filter p)]"
    using chain_rows_filter [of p "rows d" "[]"] by simp
  with Filter show ?thesis
    using filter_df_rows [of "CondFunc p" d] by (simp add: satisfies_CondFunc)
next
  case (Map f)
  have "map f (rows d) = chain_rows (rows d) [step_func (Map f)]"
    using chain_rows_map [of f "rows d" "[]"] by simp
  with Map show ?thesis
    by (simp add: map_df_rows)
qed

lemma chain_rows_cons:
  "chain_rows xs (f # fs) = chain_rows (chain_rows xs [f]) fs"
  by (induction xs) (auto split: step_result.splits option.splits)

lemma sequentially_rows:
  "\<exists>d'. sequentially d ss = Inr d' \<and> rows d' = chain_rows (rows d) (map step_func ss)"
proof (induction ss arbitrary: d)
  case Nil
  then show ?case by simp
next
  case (Cons s ss)
  obtain d1 where d1: "apply_plain d s = Inr d1" "rows d1 = chain_rows (rows d) [step_func s]"
    using apply_plain_rows by blast
  from Cons.IH [of d1] obtain d' where
    "sequentially d1 ss = Inr d'" "rows d' = chain_rows (rows d1) (map step_func ss)"
    by blast
  with d1 show ?case
    using chain_rows_cons [of "rows d" "step_func s" "map step_func ss"] by simp
qed

lemma chain_rows_map_filter: "chain_rows xs fs = List.map_filter (apply_steps fs) xs"
  by (induction xs) (auto simp: List.map_filter_simps split: option.splits)

lemma length_chain_rows: "length (chain_rows xs fs) \<le> length xs"
  by (induction xs) (auto split: option.splits)

lemma chain_rows_append: "chain_rows (xs @ ys) fs = chain_rows xs fs @ chain_rows ys fs"
  by (induction xs) (auto split: option.splits)

text \<open>
  C2. For every DataFrame and every list of steps, each a filter or a map, \<open>chain\<close> and
  the plain \<open>filter\<close> and \<open>map\<close> calls applied one after the other both return, and with
  the same row sequence: each row of the input, in the input's order, after the steps have
  been applied to it, unless a filter step dropped it. The count does not grow.
\<close>

theorem C2_chain_fusion:
  "\<exists>d1 d2. chain_df d (map step_func steps) = Inr d1
         \<and> sequentially d steps = Inr d2
         \<and> rows d1 = rows d2
         \<and> rows d1 = List.map_filter (apply_steps (map step_func steps)) (rows d)
         \<and> count_df d1 \<le> count_df d"
proof -
  obtain d2 where d2: "sequentially d steps = Inr d2"
    "rows d2 = chain_rows (rows d) (map step_func steps)"
    using sequentially_rows by blast
  obtain d1 where d1: "chain_df d (map step_func steps) = Inr d1"
    "rows d1 = chain_rows (rows d) (map step_func steps)"
    by (simp add: chain_df_def newInstance_same_columns)
  show ?thesis
    using d1 d2 length_chain_rows [of "rows d" "map step_func steps"]
    by (simp add: count_df_def chain_rows_map_filter)
qed

section \<open>Sorting\<close>






lemma sortBy_result:
  "sortBy sn d c rv =
     (case Array_sort (sortBy_compare sn c) (rows d) of
        Inl e \<Rightarrow> Inl e
      | Inr s \<Rightarrow> Inr (\<lparr>rows = (if rv then rev s else s),
                       columns = (if s = [] then map replace_space (map replace_space (columns d))
                                  else map replace_space (columns d))\<rparr>,
                      d\<lparr>rows := (if rv then rev s else s)\<rparr>))"
proof (cases "Array_sort (sortBy_compare sn c) (rows d)")
  case (Inl e)
  then show ?thesis by (simp add: sortBy_def)
next
  case (Inr s)
  have "newInstance (d\<lparr>rows := (if rv then rev s else s)\<rparr>) (map RowRow (if rv then rev s else s))
          (columns (d\<lparr>rows := (if rv then rev s else s)\<rparr>))
        = Inr \<lparr>rows = (if rv then rev s else s),
               columns = (if s = [] then map replace_space (map replace_space (columns d))
                                  else map replace_space (columns d))\<rparr>"
    by (simp only: newInstance_same_columns) simp
  with Inr show ?thesis
    by (simp add: sortBy_def Let_def)
qed




text \<open>
  C1. The claim: a transformation leaves the receiver's \<open>toArray\<close> unchanged. \<open>sortBy\<close>
  sorts the receiver's own row array: a receiver with the rows 2, 1 has the rows 1, 2 after
  the call.
\<close>

theorem C1_sortBy_changes_receiver:
  "map_sum id (\<lambda>(d', this'). toArray this')
     (sortBy (\<lambda>s. None) \<lparr>rows = [[(''n'', Num 2)], [(''n'', Num 1)]], columns = [''n'']\<rparr> ''n'' False)
     = Inr [[Num 1], [Num 2]]
   \<and> toArray \<lparr>rows = [[(''n'', Num 2)], [(''n'', Num 1)]], columns = [''n'']\<rparr> = [[Num 2], [Num 1]]"
  by (simp add: sortBy_result sortBy_compare_def Row_get_def js_minus_def toArray_def Row_toArray_def)

end
